theory Spec2Isabelle
  imports Complex_Main
begin

section \<open>STL model calculator: \<open>smc.py\<close>\<close>

text \<open>
  A shallow embedding of \<open>smc.py\<close>: the material table \<open>Materials\<close> and the mesh engine
  \<open>STLUtils\<close> (binary and text loading, volume, mass, area, triangle count, dimensions).

  Conventions of the model.
  \<^item> A Python \<open>float\<close> is a \<open>real\<close>: arithmetic is exact, rounding is not modelled.
  \<^item> A file is its sequence of bytes, a \<open>string\<close> (one \<open>char\<close> per byte). Text is taken
    to be ASCII, so a byte of a text file is one character of a line.
  \<^item> An exception is a value of \<open>py_error\<close>; a function that may raise returns
    \<open>py_error + 'a\<close>, and one that also mutates the engine returns the engine it leaves.
  \<^item> What the code prints is not modelled.
\<close>

datatype py_error =
    InvalidMaterialName          \<comment> \<open>\<open>ValueError("Invalid material name: ...")\<close>\<close>
  | InvalidMaterialIdentifier    \<comment> \<open>\<open>ValueError("Invalid material identifier: ...")\<close>\<close>
  | IndexError                   \<comment> \<open>list index out of range\<close>
  | TypeError                    \<comment> \<open>unpacking a float, or \<open>None * density\<close>\<close>
  | StructError                  \<comment> \<open>\<open>struct.error\<close>: the buffer has the wrong size\<close>
  | AttributeError               \<comment> \<open>\<open>None.read\<close>: no file object\<close>
  | OSError                      \<comment> \<open>\<open>open\<close>: the file is missing or cannot be read\<close>

subsection \<open>Materials\<close>

text \<open>
  \<open>materials_dict\<close> in insertion order, which is the order \<open>items()\<close> iterates in:
  key, name, density.
\<close>

definition materials_dict :: "(int \<times> string \<times> real) list" where
  "materials_dict =
     [(1, ''ABS'', 1.04),
      (2, ''PLA'', 1.25),
      (3, ''PETG'', 1.27),
      (4, ''PETG-CF'', 1.25)]"

text \<open>
  The values \<open>get_density\<close> can be called with. Python's \<open>bool\<close> is a subclass of \<open>int\<close>,
  with \<open>True == 1\<close> and \<open>False == 0\<close> (and equal hashes), so a boolean passes
  \<open>isinstance(identifier, int)\<close> and is looked up as that integer. \<open>OtherId\<close> stands for
  a value of any other type (a float, \<open>None\<close>, a tuple).
\<close>

datatype ident = IntId int | BoolId bool | StrId string | OtherId

text \<open>\<open>str.lower()\<close> on ASCII text: the letters \<open>A\<close> to \<open>Z\<close> are moved to \<open>a\<close> to \<open>z\<close>.\<close>

definition lower_char :: "char \<Rightarrow> char" where
  "lower_char c =
     (let n = (of_char c :: nat) in if 65 \<le> n \<and> n \<le> 90 then char_of (n + 32) else c)"

definition lower :: "string \<Rightarrow> string" where
  "lower s = map lower_char s"

text \<open>The \<open>for key, value in items()\<close> loop of the string branch.\<close>

fun find_name :: "(int \<times> string \<times> real) list \<Rightarrow> string \<Rightarrow> py_error + real" where
  "find_name [] idn = Inl InvalidMaterialName"
| "find_name ((key, name, density) # rest) idn =
     (if lower name = lower idn then Inr density else find_name rest idn)"

text \<open>The integer branch: \<open>identifier in materials_dict\<close>, then the entry's density.\<close>

definition int_key :: "ident \<Rightarrow> int option" where
  "int_key idn =
     (case idn of
        IntId n \<Rightarrow> Some n
      | BoolId b \<Rightarrow> Some (if b then 1 else 0)
      | _ \<Rightarrow> None)"

definition get_density :: "ident \<Rightarrow> py_error + real" where
  "get_density idn =
     (case (case int_key idn of None \<Rightarrow> None | Some n \<Rightarrow> map_of materials_dict n) of
        Some (name, density) \<Rightarrow> Inr density
      | None \<Rightarrow>
          (case idn of
             StrId s \<Rightarrow> find_name materials_dict s
           | _ \<Rightarrow> Inl InvalidMaterialIdentifier))"

subsection \<open>The engine's state and its triangles\<close>

type_synonym vertex = "real \<times> real \<times> real"

text \<open>
  What \<open>_triangles\<close> holds. The binary reader appends a tuple \<open>(p1, p2, p3)\<close> of three
  coordinate tuples; the text reader appends what \<open>_read_ascii_triangle\<close> returns, which
  is the float \<open>_signed_volume_of_triangle(p1, p2, p3)\<close>.
\<close>

datatype entry = Tri vertex vertex vertex | Vol real

fun is_Tri :: "entry \<Rightarrow> bool" where
  "is_Tri (Tri p1 p2 p3) = True"
| "is_Tri (Vol v) = False"

text \<open>
  The fields of \<open>STLUtils\<close>. \<open>priv_f\<close>, \<open>priv_volume\<close> and \<open>priv_triangles\<close> are \<open>_f\<close>,
  \<open>_volume\<close> and \<open>_triangles\<close>. An open file object is the bytes from its position to
  the end of the file; \<open>None\<close> is Python's \<open>None\<close>.
\<close>

record STLUtils =
  priv_f :: "string option"
  priv_volume :: "real option"
  priv_triangles :: "entry list"
  triangles_count :: int
  is_binary_file :: "bool option"

text \<open>\<open>__init__\<close>.\<close>

definition init :: STLUtils where
  "init = \<lparr> priv_f = None, priv_volume = None, priv_triangles = [],
            triangles_count = - 1, is_binary_file = None \<rparr>"

subsection \<open>Signed volume of a triangle\<close>

text \<open>\<open>_signed_volume_of_triangle\<close> on three coordinate tuples.\<close>

definition signed_volume_of_triangle :: "vertex \<Rightarrow> vertex \<Rightarrow> vertex \<Rightarrow> real" where
  "signed_volume_of_triangle p1 p2 p3 =
     (case (p1, p2, p3) of ((x1, y1, z1), (x2, y2, z2), (x3, y3, z3)) \<Rightarrow>
        (let v321 = x3 * y2 * z1;
             v231 = x2 * y3 * z1;
             v312 = x3 * y1 * z2;
             v132 = x1 * y3 * z2;
             v213 = x2 * y1 * z3;
             v123 = x1 * y2 * z3
         in (1 / 6) * (- v321 + v231 + v312 - v132 - v213 + v123)))"

text \<open>
  The same function on the lists of floats the text reader passes in: each list is
  indexed at 0, 1 and 2, so a list shorter than three raises \<open>IndexError\<close>.
\<close>

definition signed_volume_of_lists :: "real list \<Rightarrow> real list \<Rightarrow> real list \<Rightarrow> py_error + real" where
  "signed_volume_of_lists p1 p2 p3 =
     (if length p1 < 3 \<or> length p2 < 3 \<or> length p3 < 3 then Inl IndexError
      else Inr (signed_volume_of_triangle
                  (p1 ! 0, p1 ! 1, p1 ! 2) (p2 ! 0, p2 ! 1, p2 ! 2) (p3 ! 0, p3 ! 1, p3 ! 2)))"

subsection \<open>Binary decoding\<close>

text \<open>\<open>_is_binary\<close>: the first 80 bytes do not start with \<open>solid\<close>.\<close>

definition startswith :: "string \<Rightarrow> string \<Rightarrow> bool" where
  "startswith s p = (take (length p) s = p)"

definition is_binary :: "string \<Rightarrow> bool" where
  "is_binary file = (\<not> startswith (take 80 file) ''solid'')"

text \<open>
  \<open>_unpack(sig, l)\<close> reads \<open>l\<close> bytes, which moves the file position even when fewer are
  left, and \<open>struct.unpack\<close> raises when it is not given exactly \<open>l\<close> bytes. \<open>read_bytes\<close>
  is that part; the decoding of the bytes follows by format.
\<close>

definition read_bytes :: "nat \<Rightarrow> STLUtils \<Rightarrow> (py_error + string) \<times> STLUtils" where
  "read_bytes l s =
     (case priv_f s of
        None \<Rightarrow> (Inl AttributeError, s)
      | Some fo \<Rightarrow>
          (let b = take l fo; s' = s\<lparr>priv_f := Some (drop l fo)\<rparr>
           in if length b = l then (Inr b, s') else (Inl StructError, s')))"

text \<open>
  \<open>_unpack("<3f", 12)\<close>: three little-endian 32-bit floats. The value of four bytes as a
  float is the parameter \<open>dec\<close> of the loader, so nothing proved here depends on how
  infinities and NaNs, which \<open>real\<close> lacks, are decoded.
\<close>

definition unpack_3f :: "(string \<Rightarrow> real) \<Rightarrow> STLUtils \<Rightarrow> (py_error + vertex) \<times> STLUtils" where
  "unpack_3f dec s =
     (case read_bytes 12 s of
        (Inl e, s') \<Rightarrow> (Inl e, s')
      | (Inr b, s') \<Rightarrow> (Inr (dec (take 4 b), dec (take 4 (drop 4 b)), dec (drop 8 b)), s'))"

text \<open>\<open>_unpack("<h", 2)\<close>: a 16-bit integer, which the caller throws away.\<close>

definition unpack_h :: "STLUtils \<Rightarrow> (py_error + unit) \<times> STLUtils" where
  "unpack_h s =
     (case read_bytes 2 s of
        (Inl e, s') \<Rightarrow> (Inl e, s')
      | (Inr b, s') \<Rightarrow> (Inr (), s'))"

text \<open>\<open>_read_triangle\<close>: the normal, three vertices and the attribute; 50 bytes.\<close>

definition read_triangle :: "(string \<Rightarrow> real) \<Rightarrow> STLUtils \<Rightarrow> (py_error + entry) \<times> STLUtils" where
  "read_triangle dec s =
     (case unpack_3f dec s of
        (Inl e, s0) \<Rightarrow> (Inl e, s0)
      | (Inr n, s0) \<Rightarrow>
     (case unpack_3f dec s0 of
        (Inl e, s1) \<Rightarrow> (Inl e, s1)
      | (Inr p1, s1) \<Rightarrow>
     (case unpack_3f dec s1 of
        (Inl e, s2) \<Rightarrow> (Inl e, s2)
      | (Inr p2, s2) \<Rightarrow>
     (case unpack_3f dec s2 of
        (Inl e, s3) \<Rightarrow> (Inl e, s3)
      | (Inr p3, s3) \<Rightarrow>
     (case unpack_h s3 of
        (Inl e, s4) \<Rightarrow> (Inl e, s4)
      | (Inr u, s4) \<Rightarrow> (Inr (Tri p1 p2 p3), s4))))))"

text \<open>
  \<open>_read_length\<close>: \<open>struct.unpack("@i", read(4))\<close>, a signed 32-bit integer in the
  byte order of the machine, taken here to be little-endian.
\<close>

definition le_int :: "string \<Rightarrow> int" where
  "le_int b = foldr (\<lambda>c acc. of_char c + 256 * acc) b 0"

definition sint32 :: "int \<Rightarrow> int" where
  "sint32 u = (if u mod 2 ^ 32 < 2 ^ 31 then u mod 2 ^ 32 else u mod 2 ^ 32 - 2 ^ 32)"

definition read_length :: "STLUtils \<Rightarrow> (py_error + int) \<times> STLUtils" where
  "read_length s =
     (case read_bytes 4 s of
        (Inl e, s') \<Rightarrow> (Inl e, s')
      | (Inr b, s') \<Rightarrow> (Inr (sint32 (le_int b)), s'))"

text \<open>\<open>_read_header\<close>: \<open>seek(tell() + 80)\<close>; seeking past the end is allowed.\<close>

definition read_header :: "STLUtils \<Rightarrow> (py_error + unit) \<times> STLUtils" where
  "read_header s =
     (case priv_f s of
        None \<Rightarrow> (Inl AttributeError, s)
      | Some fo \<Rightarrow> (Inr (), s\<lparr>priv_f := Some (drop 80 fo)\<rparr>))"

text \<open>
  The loop \<open>for _ in range(self.triangles_count): self._triangles.append(...)\<close>, run
  \<open>n\<close> times; it stops at the first exception, returned with the engine as it is then.
\<close>

fun read_triangles :: "(string \<Rightarrow> real) \<Rightarrow> nat \<Rightarrow> STLUtils \<Rightarrow> py_error option \<times> STLUtils" where
  "read_triangles dec 0 s = (None, s)"
| "read_triangles dec (Suc n) s =
     (case read_triangle dec s of
        (Inl e, s') \<Rightarrow> (Some e, s')
      | (Inr t, s') \<Rightarrow>
          read_triangles dec n (s'\<lparr>priv_triangles := priv_triangles s' @ [t]\<rparr>))"

subsection \<open>Text decoding\<close>

text \<open>
  \<open>readlines()\<close> in text mode: a line ends after \<open>\n\<close>, \<open>\r\n\<close> or \<open>\r\<close>, each of which
  is handed over as \<open>\n\<close>, and the last line may lack it. \<open>cur\<close> is the line read so far.
\<close>

fun readlines :: "string \<Rightarrow> string \<Rightarrow> string list" where
  "readlines cur [] = (if cur = [] then [] else [cur])"
| "readlines cur [c] =
     (if c = CHR 0x0A \<or> c = CHR 0x0D then [cur @ [CHR 0x0A]] else [cur @ [c]])"
| "readlines cur (c # d # cs) =
     (if c = CHR 0x0D \<and> d = CHR 0x0A then (cur @ [CHR 0x0A]) # readlines [] cs
      else if c = CHR 0x0A \<or> c = CHR 0x0D then (cur @ [CHR 0x0A]) # readlines [] (d # cs)
      else readlines (cur @ [c]) (d # cs))"

text \<open>\<open>str.strip()\<close>: ASCII whitespace is removed at both ends.\<close>

definition is_space :: "char \<Rightarrow> bool" where
  "is_space c =
     (let n = (of_char c :: nat) in (9 \<le> n \<and> n \<le> 13) \<or> (28 \<le> n \<and> n \<le> 32))"

definition strip :: "string \<Rightarrow> string" where
  "strip s = rev (dropWhile is_space (rev (dropWhile is_space s)))"

text \<open>
  \<open>re.findall(r"[-+]?\d*\.\d+|\d+", line)\<close>. \<open>match_decimal\<close> is the first alternative
  tried at the start of a string and \<open>match_digits\<close> the second; each gives the text it
  matches. Both repetitions are greedy, and giving back a digit never helps the first
  alternative, since the character after a shorter run of digits is a digit and not
  the dot. \<open>findall\<close> scans from the left: after a match it goes on behind the match,
  otherwise one character further.
\<close>

definition is_digit :: "char \<Rightarrow> bool" where
  "is_digit c = (let n = (of_char c :: nat) in 48 \<le> n \<and> n \<le> 57)"

definition match_decimal :: "string \<Rightarrow> string option" where
  "match_decimal s =
     (let sg = (case s of [] \<Rightarrow> [] | c # cs \<Rightarrow> if c = CHR ''-'' \<or> c = CHR ''+'' then [c] else []);
          r1 = drop (length sg) s;
          ds = takeWhile is_digit r1
      in case dropWhile is_digit r1 of
           [] \<Rightarrow> None
         | d # r3 \<Rightarrow>
             if d = CHR ''.'' \<and> takeWhile is_digit r3 \<noteq> []
             then Some (sg @ ds @ [d] @ takeWhile is_digit r3)
             else None)"

definition match_digits :: "string \<Rightarrow> string option" where
  "match_digits s = (if takeWhile is_digit s = [] then None else Some (takeWhile is_digit s))"

definition match_number :: "string \<Rightarrow> string option" where
  "match_number s = (case match_decimal s of Some t \<Rightarrow> Some t | None \<Rightarrow> match_digits s)"

function findall :: "string \<Rightarrow> string list" where
  "findall [] = []"
| "findall (c # cs) =
     (case match_number (c # cs) of
        Some t \<Rightarrow> t # findall (drop (length t) (c # cs))
      | None \<Rightarrow> findall cs)"
  by pat_completeness auto
termination
proof (relation "measure length")
  fix c cs t
  assume "match_number (c # cs) = Some t"
  then have "t \<noteq> []"
    by (auto simp: match_number_def match_decimal_def match_digits_def Let_def
        split: option.splits list.splits if_splits)
  then show "(drop (length t) (c # cs), c # cs) \<in> measure length"
    by (cases t) auto
qed auto

text \<open>
  \<open>float(token)\<close> on what the pattern matches: an optional sign, digits, and possibly
  a dot with more digits. The value is the decimal number itself.
\<close>

definition digits_nat :: "string \<Rightarrow> nat" where
  "digits_nat ds = foldl (\<lambda>acc c. 10 * acc + (of_char c - 48)) 0 ds"

definition float_of_token :: "string \<Rightarrow> real" where
  "float_of_token t =
     (let neg = (case t of [] \<Rightarrow> False | c # cs \<Rightarrow> c = CHR ''-'');
          body = (case t of [] \<Rightarrow> [] | c # cs \<Rightarrow> if c = CHR ''-'' \<or> c = CHR ''+'' then cs else t);
          ip = takeWhile (\<lambda>c. c \<noteq> CHR ''.'') body;
          fp = drop 1 (dropWhile (\<lambda>c. c \<noteq> CHR ''.'') body);
          m = real (digits_nat ip) + real (digits_nat fp) / 10 ^ length fp
      in if neg then - m else m)"

definition numbers_of_line :: "string \<Rightarrow> real list" where
  "numbers_of_line l = map float_of_token (findall l)"

text \<open>\<open>lines[i]\<close> for an index that is not negative.\<close>

definition line_at :: "string list \<Rightarrow> nat \<Rightarrow> py_error + string" where
  "line_at ls i = (if i < length ls then Inr (ls ! i) else Inl IndexError)"

text \<open>
  \<open>_read_ascii_triangle\<close>: the numbers of the three lines after the line at \<open>index\<close>,
  and their signed volume, which is what it returns.
\<close>

definition read_ascii_triangle :: "string list \<Rightarrow> nat \<Rightarrow> py_error + real" where
  "read_ascii_triangle ls index =
     (case line_at ls (index + 1) of Inl e \<Rightarrow> Inl e | Inr l1 \<Rightarrow>
     (case line_at ls (index + 2) of Inl e \<Rightarrow> Inl e | Inr l2 \<Rightarrow>
     (case line_at ls (index + 3) of Inl e \<Rightarrow> Inl e | Inr l3 \<Rightarrow>
        signed_volume_of_lists (numbers_of_line l1) (numbers_of_line l2) (numbers_of_line l3))))"

text \<open>
  The \<open>while i < len(lines)\<close> loop of \<open>load_stl\<close>. It stops at the first exception,
  returned with the engine as it is then.
\<close>

function ascii_loop :: "string list \<Rightarrow> nat \<Rightarrow> STLUtils \<Rightarrow> py_error option \<times> STLUtils" where
  "ascii_loop ls i s =
     (if i < length ls then
        (if startswith (strip (ls ! i)) ''facet'' then
           (case read_ascii_triangle ls i of
              Inl e \<Rightarrow> (Some e, s)
            | Inr v \<Rightarrow>
                ascii_loop ls (i + 7) (s\<lparr>priv_triangles := priv_triangles s @ [Vol v]\<rparr>))
         else ascii_loop ls (i + 1) s)
      else (None, s))"
  by pat_completeness auto
termination
  by (relation "measure (\<lambda>(ls, i, s). length ls - i)") auto

subsection \<open>Loading\<close>

text \<open>
  The body of the \<open>try\<close> in \<open>load_stl\<close>, run on the content \<open>file\<close> of the file: the
  exception it raises, if any, and the engine at that moment. The text branch reads
  its lines from a file object of its own and leaves \<open>_f\<close> alone.
\<close>

definition load_try :: "(string \<Rightarrow> real) \<Rightarrow> string \<Rightarrow> STLUtils \<Rightarrow> py_error option \<times> STLUtils" where
  "load_try dec file s =
     (if is_binary_file s = Some True then
        (case read_header (s\<lparr>priv_f := Some file\<rparr>) of
           (Inl e, s1) \<Rightarrow> (Some e, s1)
         | (Inr u, s1) \<Rightarrow>
        (case read_length s1 of
           (Inl e, s2) \<Rightarrow> (Some e, s2)
         | (Inr n, s2) \<Rightarrow> read_triangles dec (nat n) (s2\<lparr>triangles_count := n\<rparr>)))
      else
        (case ascii_loop (readlines [] file) 0 s of
           (Some e, s1) \<Rightarrow> (Some e, s1)
         | (None, s1) \<Rightarrow> (None, s1\<lparr>triangles_count := int (length (priv_triangles s1))\<rparr>)))"

text \<open>
  \<open>load_stl\<close>: the two assignments before the \<open>try\<close>, its body, and the handler, which
  catches every exception and empties \<open>_triangles\<close>.
\<close>

definition load_start :: "string \<Rightarrow> STLUtils \<Rightarrow> STLUtils" where
  "load_start file s = s\<lparr>is_binary_file := Some (is_binary file), priv_triangles := []\<rparr>"

definition load_stl :: "(string \<Rightarrow> real) \<Rightarrow> string \<Rightarrow> STLUtils \<Rightarrow> STLUtils" where
  "load_stl dec file s =
     (case load_try dec file (load_start file s) of
        (None, s') \<Rightarrow> s'
      | (Some e, s') \<Rightarrow> s'\<lparr>priv_triangles := []\<rparr>)"

text \<open>A load fails when the body of the \<open>try\<close> raises.\<close>

definition load_fails :: "(string \<Rightarrow> real) \<Rightarrow> string \<Rightarrow> STLUtils \<Rightarrow> bool" where
  "load_fails dec file s = (fst (load_try dec file (load_start file s)) \<noteq> None)"


subsection \<open>Measurements\<close>

text \<open>
  \<open>sum(... for p1, p2, p3 in self._triangles)\<close>: the sum starts at 0 and takes the entries
  in order; unpacking an entry that is a float raises \<open>TypeError\<close>.
\<close>

fun sum_volumes :: "entry list \<Rightarrow> real \<Rightarrow> py_error + real" where
  "sum_volumes [] acc = Inr acc"
| "sum_volumes (Tri p1 p2 p3 # ts) acc = sum_volumes ts (acc + signed_volume_of_triangle p1 p2 p3)"
| "sum_volumes (Vol v # ts) acc = Inl TypeError"

text \<open>
  \<open>calculate_volume\<close>: \<open>None\<close> without triangles, else the cached \<open>_volume\<close> when there is
  one, else the sum divided by 1000, which is stored in \<open>_volume\<close>.
\<close>

definition calculate_volume :: "STLUtils \<Rightarrow> (py_error + real option) \<times> STLUtils" where
  "calculate_volume s =
     (if priv_triangles s = [] then (Inr None, s)
      else case priv_volume s of
             Some v \<Rightarrow> (Inr (Some v), s)
           | None \<Rightarrow>
               (case sum_volumes (priv_triangles s) 0 of
                  Inl e \<Rightarrow> (Inl e, s)
                | Inr t \<Rightarrow> (Inr (Some (t / 1000)), s\<lparr>priv_volume := Some (t / 1000)\<rparr>)))"

text \<open>
  \<open>calculate_mass\<close>: \<open>volume * density\<close> with the result of \<open>calculate_volume\<close>, which
  raises \<open>TypeError\<close> when that is \<open>None\<close>; a mass that is not positive gives \<open>-1\<close>.
\<close>

definition calculate_mass :: "real \<Rightarrow> STLUtils \<Rightarrow> (py_error + real) \<times> STLUtils" where
  "calculate_mass density s =
     (case calculate_volume s of
        (Inl e, s') \<Rightarrow> (Inl e, s')
      | (Inr None, s') \<Rightarrow> (Inl TypeError, s')
      | (Inr (Some volume), s') \<Rightarrow>
          (let mass = volume * density
           in if mass \<le> 0 then (Inr (- 1), s') else (Inr mass, s')))"

text \<open>One pass of the loop body of \<open>calculate_area\<close>: the area of a triangle.\<close>

definition triangle_area :: "vertex \<Rightarrow> vertex \<Rightarrow> vertex \<Rightarrow> real" where
  "triangle_area p1 p2 p3 =
     (case (p1, p2, p3) of ((x1, y1, z1), (x2, y2, z2), (x3, y3, z3)) \<Rightarrow>
        (let ax = x2 - x1; ay = y2 - y1; az = z2 - z1;
             bx = x3 - x1; by = y3 - y1; bz = z3 - z1;
             cx = ay * bz - az * by; cy = az * bx - ax * bz; cz = ax * by - ay * bx
         in 0.5 * sqrt (cx * cx + cy * cy + cz * cz)))"

fun sum_areas :: "entry list \<Rightarrow> real \<Rightarrow> py_error + real" where
  "sum_areas [] area = Inr area"
| "sum_areas (Tri p1 p2 p3 # ts) area = sum_areas ts (area + triangle_area p1 p2 p3)"
| "sum_areas (Vol v # ts) area = Inl TypeError"

definition calculate_area :: "STLUtils \<Rightarrow> py_error + real option" where
  "calculate_area s =
     (if priv_triangles s = [] then Inr None
      else case sum_areas (priv_triangles s) 0 of
             Inl e \<Rightarrow> Inl e
           | Inr area \<Rightarrow> Inr (Some (area / 100)))"

definition calculate_triangles :: "STLUtils \<Rightarrow> int option" where
  "calculate_triangles s = (if priv_triangles s = [] then None else Some (triangles_count s))"

text \<open>
  \<open>calculate_dimensions\<close>. The bounds are the pair of the minima and the maxima.
  \<open>scan_point\<close> is the body of the inner loop. The bounds start at
  \<open>float('inf')\<close> and \<open>float('-inf')\<close>, so after the first point of the first triangle
  they are that point; the loop is entered only with a list that is not empty.
\<close>

type_synonym bounds = "vertex \<times> vertex"

definition scan_point :: "bounds \<Rightarrow> vertex \<Rightarrow> bounds" where
  "scan_point b point =
     (case (b, point) of (((min_x, min_y, min_z), (max_x, max_y, max_z)), (x, y, z)) \<Rightarrow>
        ((min min_x x, min min_y y, min min_z z), (max max_x x, max max_y y, max max_z z)))"

fun scan_entries :: "entry list \<Rightarrow> bounds \<Rightarrow> py_error + bounds" where
  "scan_entries [] b = Inr b"
| "scan_entries (Tri p1 p2 p3 # ts) b =
     scan_entries ts (scan_point (scan_point (scan_point b p1) p2) p3)"
| "scan_entries (Vol v # ts) b = Inl TypeError"

definition calculate_dimensions :: "STLUtils \<Rightarrow> py_error + (real \<times> real \<times> real) option" where
  "calculate_dimensions s =
     (case priv_triangles s of
        [] \<Rightarrow> Inr None
      | Vol v # ts \<Rightarrow> Inl TypeError
      | Tri p1 p2 p3 # ts \<Rightarrow>
          (case scan_entries ts (scan_point (scan_point (p1, p1) p2) p3) of
             Inl e \<Rightarrow> Inl e
           | Inr ((min_x, min_y, min_z), (max_x, max_y, max_z)) \<Rightarrow>
               Inr (Some (max_x - min_x, max_y - min_y, max_z - min_z))))"

subsection \<open>Example files\<close>

text \<open>
  The value of four little-endian bytes as an IEEE 754 single, for the finite ones:
  sign, eight bits of exponent, 23 bits of fraction. (Exponent 255, the infinities and
  NaNs, has no value in \<open>real\<close>; the formula is applied there too, and the examples do
  not use it.)
\<close>

definition ieee_single :: "string \<Rightarrow> real" where
  "ieee_single b =
     (let u = le_int b; sg = u div 2 ^ 31; e = (u div 2 ^ 23) mod 256; m = u mod 2 ^ 23;
          mag = (if e = 0 then real_of_int m / 2 ^ 149
                 else if e < 150 then real_of_int (2 ^ 23 + m) / 2 ^ nat (150 - e)
                 else real_of_int (2 ^ 23 + m) * 2 ^ nat (e - 150))
      in if sg = 1 then - mag else mag)"

text \<open>The bytes of the singles 0.0, 1.0 and 2.0, and of a vertex.\<close>

definition f0 :: string where "f0 = [CHR 0x00, CHR 0x00, CHR 0x00, CHR 0x00]"
definition f1 :: string where "f1 = [CHR 0x00, CHR 0x00, CHR 0x80, CHR 0x3F]"
definition f2 :: string where "f2 = [CHR 0x00, CHR 0x00, CHR 0x00, CHR 0x40]"

text \<open>
  A binary file with the single triangle \<open>(a, 0, 0)\<close>, \<open>(0, 1, 0)\<close>, \<open>(0, 0, 1)\<close>, where
  \<open>fa\<close> is the bytes of \<open>a\<close>: 80 bytes of header, the count 1, a zero normal, the
  three vertices and two bytes of attribute.
\<close>

definition binary_file :: "string \<Rightarrow> string" where
  "binary_file fa =
     replicate 80 (CHR 0x00) @ [CHR 0x01, CHR 0x00, CHR 0x00, CHR 0x00]
     @ f0 @ f0 @ f0
     @ fa @ f0 @ f0
     @ f0 @ f1 @ f0
     @ f0 @ f0 @ f1
     @ [CHR 0x00, CHR 0x00]"

text \<open>The same file cut off in the middle of its only record.\<close>

definition truncated_file :: string where
  "truncated_file = take 100 (binary_file f1)"



text \<open>
  A text file with the triangle \<open>(1, 0, 0)\<close>, \<open>(0, 1, 0)\<close>, \<open>(0, 0, 1)\<close>, laid out as the format
  has it: \<open>facet\<close>, \<open>outer loop\<close>, three \<open>vertex\<close> lines, \<open>endloop\<close>, \<open>endfacet\<close>.
\<close>

definition text_file :: string where
  "text_file =
     ''solid t'' @ [CHR 0x0A]
     @ ''facet normal 0.0 0.0 0.0'' @ [CHR 0x0A]
     @ ''outer loop'' @ [CHR 0x0A]
     @ ''vertex 1.0 0.0 0.0'' @ [CHR 0x0A]
     @ ''vertex 0.0 1.0 0.0'' @ [CHR 0x0A]
     @ ''vertex 0.0 0.0 1.0'' @ [CHR 0x0A]
     @ ''endloop'' @ [CHR 0x0A]
     @ ''endfacet'' @ [CHR 0x0A]
     @ ''endsolid t'' @ [CHR 0x0A]"

text \<open>
  The same triangle with the \<open>outer loop\<close> line left out, so that the three \<open>vertex\<close> lines
  are the three lines after \<open>facet\<close>.
\<close>

definition text_file_no_loop :: string where
  "text_file_no_loop =
     ''solid t'' @ [CHR 0x0A]
     @ ''facet normal 0.0 0.0 0.0'' @ [CHR 0x0A]
     @ ''vertex 1.0 0.0 0.0'' @ [CHR 0x0A]
     @ ''vertex 0.0 1.0 0.0'' @ [CHR 0x0A]
     @ ''vertex 0.0 0.0 1.0'' @ [CHR 0x0A]
     @ ''endloop'' @ [CHR 0x0A]
     @ ''endfacet'' @ [CHR 0x0A]
     @ ''endsolid t'' @ [CHR 0x0A]"

subsection \<open>The measurements as the specification words them\<close>

text \<open>
  The signed volume of the tetrahedron of a triangle and the origin, as the
  specification writes it: a sixth of \<open>- v321 + v231 + v312 - v132 - v213 + v123\<close>, where
  \<open>v321\<close> is the product of \<open>x\<close> of \<open>p3\<close>, \<open>y\<close> of \<open>p2\<close> and \<open>z\<close> of \<open>p1\<close>, and so on.
\<close>

fun spec_volume :: "entry \<Rightarrow> real" where
  "spec_volume (Tri (x1, y1, z1) (x2, y2, z2) (x3, y3, z3)) =
     (1 / 6) * (- (x3 * y2 * z1) + x2 * y3 * z1 + x3 * y1 * z2
                - x1 * y3 * z2 - x2 * y1 * z3 + x1 * y2 * z3)"
| "spec_volume (Vol v) = 0"

text \<open>
  The area of a triangle, as the specification writes it: half the magnitude of the
  cross product of the edge vectors from \<open>p1\<close> to \<open>p2\<close> and from \<open>p1\<close> to \<open>p3\<close>.
\<close>

definition vsub :: "vertex \<Rightarrow> vertex \<Rightarrow> vertex" where
  "vsub p q = (case (p, q) of ((px, py, pz), (qx, qy, qz)) \<Rightarrow> (px - qx, py - qy, pz - qz))"

definition cross :: "vertex \<Rightarrow> vertex \<Rightarrow> vertex" where
  "cross a b =
     (case (a, b) of ((ax, ay, az), (bx, by, bz)) \<Rightarrow>
        (ay * bz - az * by, az * bx - ax * bz, ax * by - ay * bx))"

definition magnitude :: "vertex \<Rightarrow> real" where
  "magnitude a = (case a of (x, y, z) \<Rightarrow> sqrt (x\<^sup>2 + y\<^sup>2 + z\<^sup>2))"

fun spec_area :: "entry \<Rightarrow> real" where
  "spec_area (Tri p1 p2 p3) = magnitude (cross (vsub p2 p1) (vsub p3 p1)) / 2"
| "spec_area (Vol v) = 0"

text \<open>
  Two engines the theorems below run: one that has loaded the binary file of the triangle
  \<open>(1, 0, 0)\<close>, \<open>(0, 1, 0)\<close>, \<open>(0, 0, 1)\<close>, and that one after \<open>calculate_volume\<close> and a load of
  the file of \<open>(2, 0, 0)\<close>, \<open>(0, 1, 0)\<close>, \<open>(0, 0, 1)\<close>.
\<close>

definition loaded_once :: STLUtils where
  "loaded_once = load_stl ieee_single (binary_file f1) init"

definition loaded_again :: STLUtils where
  "loaded_again = load_stl ieee_single (binary_file f2) (snd (calculate_volume loaded_once))"

text \<open>
  A new engine that has loaded the text file whose three \<open>vertex\<close> lines follow the
  \<open>facet\<close> line directly.
\<close>

definition text_loaded :: STLUtils where
  "text_loaded = load_stl ieee_single text_file_no_loop init"

section \<open>Properties\<close>

subsection \<open>Loading keeps what it does not assign\<close>


lemma read_bytes_fields:
  "priv_triangles (snd (read_bytes l s)) = priv_triangles s"
  "triangles_count (snd (read_bytes l s)) = triangles_count s"
  "priv_volume (snd (read_bytes l s)) = priv_volume s"
  by (simp_all add: read_bytes_def Let_def split: option.splits)

lemma unpack_3f_fields:
  "priv_triangles (snd (unpack_3f dec s)) = priv_triangles s"
  "triangles_count (snd (unpack_3f dec s)) = triangles_count s"
  "priv_volume (snd (unpack_3f dec s)) = priv_volume s"
  using read_bytes_fields[of 12 s]
  by (auto simp: unpack_3f_def split: prod.splits sum.splits)

lemma unpack_h_fields:
  "priv_triangles (snd (unpack_h s)) = priv_triangles s"
  "triangles_count (snd (unpack_h s)) = triangles_count s"
  "priv_volume (snd (unpack_h s)) = priv_volume s"
  using read_bytes_fields[of 2 s]
  by (auto simp: unpack_h_def split: prod.splits sum.splits)

lemma read_triangle_fields:
  "priv_triangles (snd (read_triangle dec s)) = priv_triangles s"
  "triangles_count (snd (read_triangle dec s)) = triangles_count s"
  "priv_volume (snd (read_triangle dec s)) = priv_volume s"
proof -
  have "priv_triangles (snd (read_triangle dec s)) = priv_triangles s
      \<and> triangles_count (snd (read_triangle dec s)) = triangles_count s
      \<and> priv_volume (snd (read_triangle dec s)) = priv_volume s"
  proof (cases "unpack_3f dec s")
    case (Pair r0 s0)
    note f0 = unpack_3f_fields[of dec s]
    show ?thesis
    proof (cases r0)
      case (Inl e) with Pair f0 show ?thesis by (simp add: read_triangle_def)
    next
      case (Inr n)
      show ?thesis
      proof (cases "unpack_3f dec s0")
        case P1: (Pair r1 s1)
        note f1 = unpack_3f_fields[of dec s0]
        show ?thesis
        proof (cases r1)
          case (Inl e) with Pair Inr P1 f0 f1 show ?thesis by (simp add: read_triangle_def)
        next
          case I1: (Inr p1)
          show ?thesis
          proof (cases "unpack_3f dec s1")
            case P2: (Pair r2 s2)
            note f2 = unpack_3f_fields[of dec s1]
            show ?thesis
            proof (cases r2)
              case (Inl e) with Pair Inr P1 I1 P2 f0 f1 f2 show ?thesis by (simp add: read_triangle_def)
            next
              case I2: (Inr p2)
              show ?thesis
              proof (cases "unpack_3f dec s2")
                case P3: (Pair r3 s3)
                note f3 = unpack_3f_fields[of dec s2]
                show ?thesis
                proof (cases r3)
                  case (Inl e) with Pair Inr P1 I1 P2 I2 P3 f0 f1 f2 f3 show ?thesis by (simp add: read_triangle_def)
                next
                  case I3: (Inr p3)
                  note f4 = unpack_h_fields[of s3]
                  show ?thesis
                  proof (cases "unpack_h s3")
                    case P4: (Pair r4 s4)
                    with Pair Inr P1 I1 P2 I2 P3 I3 f0 f1 f2 f3 f4 show ?thesis
                      by (cases r4) (simp_all add: read_triangle_def)
                  qed
                qed
              qed
            qed
          qed
        qed
      qed
    qed
  qed
  then show "priv_triangles (snd (read_triangle dec s)) = priv_triangles s"
    and "triangles_count (snd (read_triangle dec s)) = triangles_count s"
    and "priv_volume (snd (read_triangle dec s)) = priv_volume s" by simp_all
qed

lemma read_triangles_fields:
  "triangles_count (snd (read_triangles dec n s)) = triangles_count s
     \<and> priv_volume (snd (read_triangles dec n s)) = priv_volume s"
proof (induction n arbitrary: s)
  case (Suc n)
  show ?case
  proof (cases "read_triangle dec s")
    case (Pair r s')
    with read_triangle_fields(2,3)[of dec s]
    have c: "triangles_count s' = triangles_count s" "priv_volume s' = priv_volume s" by simp_all
    show ?thesis
    proof (cases r)
      case (Inl e) with Pair c show ?thesis by simp
    next
      case (Inr t)
      with Pair c Suc.IH[of "s'\<lparr>priv_triangles := priv_triangles s' @ [t]\<rparr>"] show ?thesis by simp
    qed
  qed
qed simp

lemma read_triangles_length:
  "fst (read_triangles dec n s) = None \<Longrightarrow>
     length (priv_triangles (snd (read_triangles dec n s))) = length (priv_triangles s) + n"
proof (induction n arbitrary: s)
  case (Suc n)
  show ?case
  proof (cases "read_triangle dec s")
    case (Pair r s')
    with read_triangle_fields(1)[of dec s] have c: "priv_triangles s' = priv_triangles s" by simp
    show ?thesis
    proof (cases r)
      case (Inl e) with Pair Suc.prems show ?thesis by simp
    next
      case (Inr t)
      with Pair c Suc.prems Suc.IH[of "s'\<lparr>priv_triangles := priv_triangles s' @ [t]\<rparr>"] show ?thesis by simp
    qed
  qed
qed simp

lemma ascii_loop_count:
  "triangles_count (snd (ascii_loop ls i s)) = triangles_count s
     \<and> priv_volume (snd (ascii_loop ls i s)) = priv_volume s"
proof (induction ls i s rule: ascii_loop.induct)
  case (1 ls i s)
  show ?case
  proof (cases "i < length ls")
    case False then show ?thesis by (subst ascii_loop.simps) simp
  next
    case True
    show ?thesis
    proof (cases "startswith (strip (ls ! i)) ''facet''")
      case False
      with True "1.IH"(2) show ?thesis by (subst ascii_loop.simps) simp
    next
      case st: True
      show ?thesis
      proof (cases "read_ascii_triangle ls i")
        case (Inl e) with True st show ?thesis by (subst ascii_loop.simps) simp
      next
        case (Inr v)
        with True st "1.IH"(1)[OF True st Inr] show ?thesis by (subst ascii_loop.simps) simp
      qed
    qed
  qed
qed


lemma load_start_fields:
  "triangles_count (load_start file s) = triangles_count s"
  "priv_volume (load_start file s) = priv_volume s"
  "priv_triangles (load_start file s) = []"
  "is_binary_file (load_start file s) = Some (is_binary file)"
  by (simp_all add: load_start_def)


lemma load_try_binary_short:
  assumes "is_binary_file s = Some True" "length file < 84"
  shows "fst (load_try dec file s) \<noteq> None \<and> triangles_count (snd (load_try dec file s)) = triangles_count s"
  using assms by (simp add: load_try_def read_header_def read_length_def read_bytes_def Let_def)

lemma load_try_binary_long:
  assumes "is_binary_file s = Some True" "84 \<le> length file"
  shows "triangles_count (snd (load_try dec file s)) = sint32 (le_int (take 4 (drop 80 file)))
       \<and> (fst (load_try dec file s) = None \<longrightarrow>
            length (priv_triangles (snd (load_try dec file s)))
              = length (priv_triangles s) + nat (sint32 (le_int (take 4 (drop 80 file)))))"
proof -
  let ?n = "sint32 (le_int (take 4 (drop 80 file)))"
  let ?s2 = "s\<lparr>priv_f := Some (drop 4 (drop 80 file)), triangles_count := ?n\<rparr>"
  from assms have e: "load_try dec file s = read_triangles dec (nat ?n) ?s2"
    by (simp add: load_try_def read_header_def read_length_def read_bytes_def Let_def)
  show ?thesis
    unfolding e using read_triangles_fields[of dec "nat ?n" ?s2] read_triangles_length[of dec "nat ?n" ?s2]
    by simp
qed

lemma load_try_text:
  assumes "is_binary_file s \<noteq> Some True"
  shows "(fst (load_try dec file s) \<noteq> None \<longrightarrow> triangles_count (snd (load_try dec file s)) = triangles_count s)
       \<and> (fst (load_try dec file s) = None \<longrightarrow>
            triangles_count (snd (load_try dec file s)) = int (length (priv_triangles (snd (load_try dec file s)))))"
proof (cases "ascii_loop (readlines [] file) 0 s")
  case (Pair r s1)
  with ascii_loop_count[of "readlines [] file" 0 s] have c: "triangles_count s1 = triangles_count s" by simp
  from assms Pair c show ?thesis by (cases r) (simp_all add: load_try_def)
qed


lemma read_header_volume: "priv_volume (snd (read_header s)) = priv_volume s"
  by (simp add: read_header_def split: option.splits)

lemma read_length_volume: "priv_volume (snd (read_length s)) = priv_volume s"
  using read_bytes_fields(3)[of 4 s]
  by (auto simp: read_length_def split: prod.splits sum.splits)

lemma load_try_volume: "priv_volume (snd (load_try dec file s)) = priv_volume s"
proof (cases "is_binary_file s = Some True")
  case False
  show ?thesis
  proof (cases "ascii_loop (readlines [] file) 0 s")
    case (Pair r s1)
    with ascii_loop_count[of "readlines [] file" 0 s] have "priv_volume s1 = priv_volume s" by simp
    with False Pair show ?thesis by (cases r) (simp_all add: load_try_def)
  qed
next
  case True
  let ?s0 = "s\<lparr>priv_f := Some file\<rparr>"
  show ?thesis
  proof (cases "read_header ?s0")
    case (Pair r1 s1)
    with read_header_volume[of ?s0] have v1: "priv_volume s1 = priv_volume s" by simp
    show ?thesis
    proof (cases r1)
      case (Inl e) with True Pair v1 show ?thesis by (simp add: load_try_def)
    next
      case (Inr u)
      show ?thesis
      proof (cases "read_length s1")
        case P2: (Pair r2 s2)
        with read_length_volume[of s1] v1 have v2: "priv_volume s2 = priv_volume s" by simp
        show ?thesis
        proof (cases r2)
          case (Inl e) with True Pair Inr P2 v2 show ?thesis by (simp add: load_try_def)
        next
          case I2: (Inr n)
          from read_triangles_fields[of dec "nat n" "s2\<lparr>triangles_count := n\<rparr>"] v2
          have "priv_volume (snd (read_triangles dec (nat n) (s2\<lparr>triangles_count := n\<rparr>))) = priv_volume s"
            by simp
          with True Pair Inr P2 I2 show ?thesis by (simp add: load_try_def)
        qed
      qed
    qed
  qed
qed

lemma load_stl_volume: "priv_volume (load_stl dec file s) = priv_volume s"
  using load_try_volume[of dec "file" "load_start file s"]
  by (auto simp: load_stl_def load_start_def split: prod.splits option.splits)

subsection \<open>What a binary load stores\<close>

lemma read_triangle_Tri: "fst (read_triangle dec s) = Inr t \<Longrightarrow> is_Tri t"
  by (auto simp: read_triangle_def split: prod.splits sum.splits)

lemma read_triangles_Tri:
  "\<forall>e\<in>set (priv_triangles s). is_Tri e \<Longrightarrow>
     \<forall>e\<in>set (priv_triangles (snd (read_triangles dec n s))). is_Tri e"
proof (induction n arbitrary: s)
  case (Suc n)
  show ?case
  proof (cases "read_triangle dec s")
    case (Pair r s')
    with read_triangle_fields(1)[of dec s] have c: "priv_triangles s' = priv_triangles s" by simp
    show ?thesis
    proof (cases r)
      case (Inl e) with Pair c Suc.prems show ?thesis by simp
    next
      case (Inr t)
      with Pair read_triangle_Tri[of dec s t] have "is_Tri t" by simp
      with c Suc.prems have "\<forall>e\<in>set (priv_triangles (s'\<lparr>priv_triangles := priv_triangles s' @ [t]\<rparr>)). is_Tri e"
        by simp
      from Suc.IH[OF this] Pair Inr show ?thesis by simp
    qed
  qed
qed simp

text \<open>Every entry a binary load leaves in \<open>_triangles\<close> is a triple of vertices.\<close>

lemma binary_load_Tri:
  assumes "is_binary file"
  shows "\<forall>e\<in>set (priv_triangles (load_stl dec file s)). is_Tri e"
proof -
  let ?s0 = "load_start file s"
  have "\<forall>e\<in>set (priv_triangles (snd (load_try dec file ?s0))). is_Tri e"
  proof (cases "84 \<le> length file")
    case True
    let ?n = "sint32 (le_int (take 4 (drop 80 file)))"
    let ?s2 = "?s0\<lparr>priv_f := Some (drop 4 (drop 80 file)), triangles_count := ?n\<rparr>"
    from assms True have e: "load_try dec file ?s0 = read_triangles dec (nat ?n) ?s2"
      by (simp add: load_try_def load_start_def read_header_def read_length_def read_bytes_def Let_def)
    have "\<forall>e\<in>set (priv_triangles ?s2). is_Tri e" by (simp add: load_start_def)
    from read_triangles_Tri[OF this] show ?thesis unfolding e .
  next
    case False
    with assms show ?thesis
      by (simp add: load_try_def load_start_def read_header_def read_length_def read_bytes_def Let_def)
  qed
  then show ?thesis
    by (auto simp: load_stl_def split: prod.splits option.splits)
qed

subsection \<open>The measurement loops on a list of triangles\<close>

lemma sum_volumes_Tri:
  "\<forall>e\<in>set ts. is_Tri e \<Longrightarrow> sum_volumes ts acc = Inr (acc + (\<Sum>e\<leftarrow>ts. spec_volume e))"
proof (induction ts acc rule: sum_volumes.induct)
  case (2 p1 p2 p3 ts acc)
  then show ?case
    by (cases p1; cases p2; cases p3) (simp add: signed_volume_of_triangle_def)
qed simp_all

lemma sum_areas_Tri:
  "\<forall>e\<in>set ts. is_Tri e \<Longrightarrow> sum_areas ts acc = Inr (acc + (\<Sum>e\<leftarrow>ts. spec_area e))"
proof (induction ts acc rule: sum_areas.induct)
  case (2 p1 p2 p3 ts acc)
  then show ?case
    by (cases p1; cases p2; cases p3)
       (simp add: triangle_area_def magnitude_def cross_def vsub_def power2_eq_square Let_def)
qed simp_all

text \<open>
  With no volume cached, \<open>calculate_volume\<close> on a list of triangles is the sum of the
  signed tetrahedron volumes divided by 1000.
\<close>

lemma calculate_volume_uncached:
  assumes "priv_triangles s \<noteq> []" "\<forall>e\<in>set (priv_triangles s). is_Tri e" "priv_volume s = None"
  shows "fst (calculate_volume s) = Inr (Some ((\<Sum>e\<leftarrow>priv_triangles s. spec_volume e) / 1000))"
  using assms by (simp add: calculate_volume_def sum_volumes_Tri)

lemma find_name_cong: "lower s = lower t \<Longrightarrow> find_name d s = find_name d t"
  by (induction d s rule: find_name.induct) auto

text \<open>
  The count a failing \<open>try\<close> leaves: the one the file declares when the file is binary and
  has the 84 bytes of header and count, and the one from before the load otherwise.
\<close>

lemma failed_load_count:
  assumes "load_fails dec file s"
  shows "triangles_count (load_stl dec file s) =
           (if is_binary file \<and> 84 \<le> length file then sint32 (le_int (take 4 (drop 80 file)))
            else triangles_count s)"
proof -
  let ?s0 = "load_start file s"
  let ?s' = "load_stl dec file s"
  from assms have c: "triangles_count ?s' = triangles_count (snd (load_try dec file ?s0))"
    and n: "fst (load_try dec file ?s0) \<noteq> None"
    by (auto simp: load_fails_def load_stl_def split: prod.splits option.splits)
  have "triangles_count (snd (load_try dec file ?s0)) =
           (if is_binary file \<and> 84 \<le> length file then sint32 (le_int (take 4 (drop 80 file)))
            else triangles_count s)"
  proof (cases "is_binary file")
    case False
    then have "is_binary_file ?s0 \<noteq> Some True" by (simp add: load_start_def)
    from load_try_text[OF this, of dec "file"] n False show ?thesis by (simp add: load_start_def)
  next
    case True
    then have b: "is_binary_file ?s0 = Some True" by (simp add: load_start_def)
    show ?thesis
    proof (cases "84 \<le> length file")
      case l: True
      from load_try_binary_long[OF b l, of dec] True l show ?thesis by simp
    next
      case False
      then have "length file < 84" by simp
      from load_try_binary_short[OF b this, of dec] True False show ?thesis by (simp add: load_start_def)
    qed
  qed
  with c show ?thesis by simp
qed


text \<open>
  On a non-empty list of triangles, two calls of \<open>calculate_volume\<close> in a row return the
  same value, and the second returns what the first has cached.
\<close>

lemma calculate_volume_twice_triples:
  assumes "priv_triangles s \<noteq> []" "\<forall>e\<in>set (priv_triangles s). is_Tri e"
  shows "\<exists>v. fst (calculate_volume s) = Inr (Some v)
           \<and> priv_volume (snd (calculate_volume s)) = Some v
           \<and> calculate_volume (snd (calculate_volume s)) = (Inr (Some v), snd (calculate_volume s))"
proof (cases "priv_volume s")
  case None
  let ?v = "(\<Sum>e\<leftarrow>priv_triangles s. spec_volume e) / 1000"
  from assms None have c: "calculate_volume s = (Inr (Some ?v), s\<lparr>priv_volume := Some ?v\<rparr>)"
    by (simp add: calculate_volume_def sum_volumes_Tri)
  from assms have "calculate_volume (s\<lparr>priv_volume := Some ?v\<rparr>) = (Inr (Some ?v), s\<lparr>priv_volume := Some ?v\<rparr>)"
    by (simp add: calculate_volume_def)
  with c show ?thesis by (intro exI[of _ ?v]) simp
next
  case (Some v)
  with assms have "calculate_volume s = (Inr (Some v), s)"
    by (simp add: calculate_volume_def)
  with Some show ?thesis by simp
qed

text \<open>
  On a non-empty list of triangles, \<open>calculate_area\<close> is the sum of half the magnitudes
  of the cross products of the edge vectors, divided by 100.
\<close>

lemma calculate_area_formula_triples:
  assumes "priv_triangles s \<noteq> []" "\<forall>e\<in>set (priv_triangles s). is_Tri e"
  shows "calculate_area s = Inr (Some ((\<Sum>e\<leftarrow>priv_triangles s. spec_area e) / 100))"
  using assms by (simp add: calculate_area_def sum_areas_Tri)


section \<open>The claims\<close>

subsection \<open>C1: the volume formula\<close>

text \<open>
  Claim C1: for every engine whose loaded triangle list is non-empty, \<open>calculate_volume\<close>
  returns the sum over all triangles of the signed tetrahedron volume, divided by 1000.

  The code returns the cached \<open>_volume\<close> whenever there is one, and \<open>load_stl\<close> does not
  clear it. An engine that loads the file of \<open>(1, 0, 0)\<close>, \<open>(0, 1, 0)\<close>, \<open>(0, 0, 1)\<close>, computes
  the volume, and then loads the file of \<open>(2, 0, 0)\<close>, \<open>(0, 1, 0)\<close>, \<open>(0, 0, 1)\<close> holds that
  second triangle, whose sum divided by 1000 is \<open>1 / 3000\<close>, and \<open>calculate_volume\<close>
  returns \<open>1 / 6000\<close>, the volume of the first file. (Without a cached volume the
  formula is what the code computes: \<open>calculate_volume_uncached\<close>.)
\<close>

theorem calculate_volume_after_reload:
  "priv_triangles loaded_again = [Tri (2, 0, 0) (0, 1, 0) (0, 0, 1)]
   \<and> (\<Sum>e\<leftarrow>priv_triangles loaded_again. spec_volume e) / 1000 = 1 / 3000
   \<and> fst (calculate_volume loaded_again) = Inr (Some (1 / 6000))"
  by code_simp

subsection \<open>C2: binary and text files of the same geometry\<close>

text \<open>
  Claim C2: a geometry encoded as a binary file and as a text file loads to a uniform
  triangle list on which \<open>calculate_volume\<close>, \<open>calculate_area\<close> and
  \<open>calculate_dimensions\<close> succeed and agree.

  The code at the triangle \<open>(1, 0, 0)\<close>, \<open>(0, 1, 0)\<close>, \<open>(0, 0, 1)\<close>. The text file in the
  standard layout fails to load: the line after \<open>facet\<close> is \<open>outer loop\<close>, which has no
  number, so indexing its list raises; the engine is left without triangles and the
  three measurements return \<open>None\<close>. With the \<open>outer loop\<close> line left out the load
  succeeds, and what it stores is the float \<open>1 / 6\<close> instead of the triangle, so the
  three measurements raise \<open>TypeError\<close>. The binary file loads the triangle, and the
  three measurements return values.
\<close>

theorem text_load_measurements:
  "load_fails dec text_file init
   \<and> priv_triangles (load_stl dec text_file init) = []
   \<and> fst (calculate_volume (load_stl dec text_file init)) = Inr None
   \<and> calculate_area (load_stl dec text_file init) = Inr None
   \<and> calculate_dimensions (load_stl dec text_file init) = Inr None
   \<and> \<not> load_fails dec text_file_no_loop init
   \<and> priv_triangles (load_stl dec text_file_no_loop init) = [Vol (1 / 6)]
   \<and> fst (calculate_volume (load_stl dec text_file_no_loop init)) = Inl TypeError
   \<and> calculate_area (load_stl dec text_file_no_loop init) = Inl TypeError
   \<and> calculate_dimensions (load_stl dec text_file_no_loop init) = Inl TypeError
   \<and> priv_triangles loaded_once = [Tri (1, 0, 0) (0, 1, 0) (0, 0, 1)]
   \<and> fst (calculate_volume loaded_once) = Inr (Some (1 / 6000))
   \<and> calculate_area loaded_once = Inr (Some (sqrt 3 / 200))
   \<and> calculate_dimensions loaded_once = Inr (Some (1, 1, 1))"
proof -
  have a: "load_fails dec text_file init" by code_simp
  have b: "priv_triangles (load_stl dec text_file init) = []" by code_simp
  have c: "fst (calculate_volume (load_stl dec text_file init)) = Inr None
      \<and> calculate_dimensions (load_stl dec text_file init) = Inr None" by code_simp
  from b have d: "calculate_area (load_stl dec text_file init) = Inr None"
    by (simp add: calculate_area_def)
  have e: "\<not> load_fails dec text_file_no_loop init" by code_simp
  have f: "priv_triangles (load_stl dec text_file_no_loop init) = [Vol (1 / 6)]" by code_simp
  have g: "fst (calculate_volume (load_stl dec text_file_no_loop init)) = Inl TypeError
      \<and> calculate_dimensions (load_stl dec text_file_no_loop init) = Inl TypeError" by code_simp
  from f have h: "calculate_area (load_stl dec text_file_no_loop init) = Inl TypeError"
    by (simp add: calculate_area_def)
  have i: "priv_triangles loaded_once = [Tri (1, 0, 0) (0, 1, 0) (0, 0, 1)]" by code_simp
  have j: "fst (calculate_volume loaded_once) = Inr (Some (1 / 6000))
      \<and> calculate_dimensions loaded_once = Inr (Some (1, 1, 1))" by code_simp
  from i have k: "calculate_area loaded_once = Inr (Some (sqrt 3 / 200))"
    by (simp add: calculate_area_def triangle_area_def)
  from a b c d e f g h i j k show ?thesis by simp
qed

subsection \<open>C3: the engine after a failed load\<close>




subsection \<open>C4: a load and the cached volume\<close>

text \<open>
  Claim C4: every successful load resets the cached volume, so that \<open>calculate_volume\<close>
  after it returns the volume of the newly loaded triangles.

  The code: \<open>load_stl\<close> never assigns \<open>_volume\<close>, whatever the file and the engine. So the
  engine that has computed \<open>1 / 6000\<close> for the first file and then loads the second,
  successfully, still answers \<open>1 / 6000\<close>, where a new engine loading the second file
  answers \<open>1 / 3000\<close>.
\<close>

theorem load_keeps_cached_volume:
  "priv_volume (load_stl dec file s) = priv_volume s
   \<and> \<not> load_fails ieee_single (binary_file f2) (snd (calculate_volume loaded_once))
   \<and> fst (calculate_volume loaded_once) = Inr (Some (1 / 6000))
   \<and> fst (calculate_volume loaded_again) = Inr (Some (1 / 6000))
   \<and> fst (calculate_volume (load_stl ieee_single (binary_file f2) init)) = Inr (Some (1 / 3000))"
proof -
  have "\<not> load_fails ieee_single (binary_file f2) (snd (calculate_volume loaded_once))
   \<and> fst (calculate_volume loaded_once) = Inr (Some (1 / 6000))
   \<and> fst (calculate_volume loaded_again) = Inr (Some (1 / 6000))
   \<and> fst (calculate_volume (load_stl ieee_single (binary_file f2) init)) = Inr (Some (1 / 3000))"
    by code_simp
  with load_stl_volume[of dec "file" s] show ?thesis by simp
qed

subsection \<open>C5: measurements on a new engine\<close>

text \<open>
  Claim C5: on a new engine each of \<open>calculate_volume\<close>, \<open>calculate_mass\<close>,
  \<open>calculate_area\<close>, \<open>calculate_triangles\<close> and \<open>calculate_dimensions\<close> reports that no
  mesh is loaded, as an error result and never as a crash.

  The code: four of them return \<open>None\<close>; \<open>calculate_mass\<close> multiplies the \<open>None\<close> it gets
  from \<open>calculate_volume\<close> by the density, which raises \<open>TypeError\<close>, for any density.
\<close>

theorem calculate_mass_not_loaded:
  "calculate_mass density init = (Inl TypeError, init)
   \<and> calculate_volume init = (Inr None, init)
   \<and> calculate_area init = Inr None
   \<and> calculate_triangles init = None
   \<and> calculate_dimensions init = Inr None"
  by (simp add: calculate_mass_def calculate_volume_def calculate_area_def
      calculate_triangles_def calculate_dimensions_def init_def)

subsection \<open>C6: the triangle count and the length of the list\<close>

text \<open>
  Claim C6, as stated: after construction, after every successful load and after every
  failed load the stored triangle count equals the length of the triangle list. It
  fails for a new engine, whose count is \<open>-1\<close> and whose list is empty, and after the
  failed load of the truncated file, which leaves the count 1 and the list empty.
\<close>

theorem count_equals_length_counterexample:
  "triangles_count init \<noteq> int (length (priv_triangles init))
   \<and> load_fails ieee_single truncated_file init
   \<and> triangles_count (load_stl ieee_single truncated_file init)
       \<noteq> int (length (priv_triangles (load_stl ieee_single truncated_file init)))"
  by code_simp

text \<open>
  Claim C6, amended: a new engine has the count \<open>-1\<close> and an empty list; after every
  successful load, binary or text, the length of the triangle list is the stored count,
  or 0 when the stored count is negative (a binary file may declare a negative count,
  which reads no record).
\<close>

theorem count_after_successful_load:
  assumes ok: "\<not> load_fails dec file s"
  shows "triangles_count init = - 1 \<and> priv_triangles init = [] \<and>
      int (length (priv_triangles (load_stl dec file s))) = max 0 (triangles_count (load_stl dec file s))"
proof (intro conjI)
  let ?s0 = "load_start file s"
  from ok have e: "load_stl dec file s = snd (load_try dec file ?s0)" and n: "fst (load_try dec file ?s0) = None"
    by (auto simp: load_fails_def load_stl_def split: prod.splits option.splits)
  show "int (length (priv_triangles (load_stl dec file s))) = max 0 (triangles_count (load_stl dec file s))"
  proof (cases "is_binary file")
    case False
    then have "is_binary_file ?s0 \<noteq> Some True" by (simp add: load_start_def)
    from load_try_text[OF this, of dec "file"] n show ?thesis unfolding e by simp
  next
    case True
    then have b: "is_binary_file ?s0 = Some True" by (simp add: load_start_def)
    show ?thesis
    proof (cases "84 \<le> length file")
      case True
      from load_try_binary_long[OF b True, of dec] n show ?thesis
        unfolding e by (simp add: load_start_def)
    next
      case False
      then have "length file < 84" by simp
      from load_try_binary_short[OF b this, of dec] n show ?thesis by simp
    qed
  qed
qed (simp_all add: init_def)

text \<open>Claim C6, witness: the amended claim at the binary file of one triangle.\<close>

theorem count_after_successful_load_witness:
  "\<not> load_fails ieee_single (binary_file f1) init
   \<and> int (length (priv_triangles (load_stl ieee_single (binary_file f1) init))) = 1
   \<and> triangles_count (load_stl ieee_single (binary_file f1) init) = 1"
proof -
  have h: "\<not> load_fails ieee_single (binary_file f1) init" by code_simp
  have c: "triangles_count (load_stl ieee_single (binary_file f1) init) = 1" by code_simp
  from count_after_successful_load[OF h] h c show ?thesis by simp
qed

subsection \<open>C7: calling \<open>calculate_volume\<close> twice\<close>

text \<open>
  Claim C7: for every engine with a non-empty loaded triangle list, two calls of
  \<open>calculate_volume\<close> in a row return the same value, and the second returns the value
  the first has cached.

  The code at the text file whose \<open>vertex\<close> lines follow \<open>facet\<close> directly, loaded into a
  new engine: the load does not fail, the list is not empty and the count is 1, and what
  the list holds is the float \<open>1 / 6\<close>. The first \<open>calculate_volume\<close> raises \<open>TypeError\<close>
  on unpacking it, returns no value and caches none, and so does the second. (On a list
  of triangles, which is what a binary load stores, the claim holds:
  \<open>calculate_volume_twice_triples\<close>, \<open>binary_load_Tri\<close>.)
\<close>

theorem calculate_volume_twice_text_load:
  "\<not> load_fails ieee_single text_file_no_loop init
   \<and> priv_triangles text_loaded = [Vol (1 / 6)]
   \<and> triangles_count text_loaded = 1
   \<and> calculate_volume text_loaded = (Inl TypeError, text_loaded)
   \<and> priv_volume (snd (calculate_volume text_loaded)) = None
   \<and> calculate_volume (snd (calculate_volume text_loaded)) = (Inl TypeError, text_loaded)"
  by code_simp

subsection \<open>C8: the area formula\<close>

text \<open>
  Claim C8: for every engine whose loaded triangle list is non-empty, \<open>calculate_area\<close>
  returns the sum over all triangles of half the magnitude of the cross product of the
  edge vectors \<open>p2 - p1\<close> and \<open>p3 - p1\<close>, divided by 100.

  The code at the same text file: the list is not empty, it holds the float \<open>1 / 6\<close>,
  and \<open>calculate_area\<close> raises \<open>TypeError\<close> on unpacking it, where the claim has the area
  of the triangle \<open>(1, 0, 0)\<close>, \<open>(0, 1, 0)\<close>, \<open>(0, 0, 1)\<close>, which the binary file of that
  triangle gives. (On a list of triangles the claim holds:
  \<open>calculate_area_formula_triples\<close>.)
\<close>

theorem calculate_area_text_load:
  "\<not> load_fails ieee_single text_file_no_loop init
   \<and> priv_triangles text_loaded = [Vol (1 / 6)]
   \<and> calculate_area text_loaded = Inl TypeError
   \<and> priv_triangles loaded_once = [Tri (1, 0, 0) (0, 1, 0) (0, 0, 1)]
   \<and> calculate_area loaded_once = Inr (Some (sqrt 3 / 2 / 100))"
proof -
  have a: "\<not> load_fails ieee_single text_file_no_loop init" by code_simp
  have b: "priv_triangles text_loaded = [Vol (1 / 6)]" by code_simp
  then have c: "calculate_area text_loaded = Inl TypeError"
    by (simp add: calculate_area_def)
  have d: "priv_triangles loaded_once = [Tri (1, 0, 0) (0, 1, 0) (0, 0, 1)]" by code_simp
  then have e: "calculate_area loaded_once = Inr (Some (sqrt 3 / 2 / 100))"
    by (simp add: calculate_area_def triangle_area_def)
  from a b c d e show ?thesis by simp
qed

subsection \<open>C9: material names and codes\<close>

text \<open>
  Claim C9: the lookup by name ignores case, and for every entry of the table the
  lookup by its code and the lookup by its name give the entry's density; so
  \<open>get_density(2)\<close>, \<open>get_density("pla")\<close> and \<open>get_density("PLA")\<close> are the same.
\<close>

theorem get_density_names_and_codes:
  "(lower s = lower t \<longrightarrow> get_density (StrId s) = get_density (StrId t))
   \<and> ((key, name, density) \<in> set materials_dict \<longrightarrow>
        get_density (IntId key) = Inr density \<and> get_density (StrId name) = Inr density)"
proof (intro conjI impI)
  assume "lower s = lower t"
  then show "get_density (StrId s) = get_density (StrId t)"
    using find_name_cong[of s t materials_dict] by (simp add: get_density_def int_key_def)
next
  assume m: "(key, name, density) \<in> set materials_dict"
  have k: "get_density (IntId 1) = Inr 1.04" "get_density (IntId 2) = Inr 1.25"
    "get_density (IntId 3) = Inr 1.27" "get_density (IntId 4) = Inr 1.25"
    by (simp_all add: get_density_def int_key_def materials_dict_def)
  from m have "(key, name, density) = (1, ''ABS'', 1.04) \<or> (key, name, density) = (2, ''PLA'', 1.25)
      \<or> (key, name, density) = (3, ''PETG'', 1.27) \<or> (key, name, density) = (4, ''PETG-CF'', 1.25)"
    by (simp add: materials_dict_def)
  then show "get_density (IntId key) = Inr density"
    using k by (elim disjE) simp_all
next
  assume m: "(key, name, density) \<in> set materials_dict"
  have e: "get_density (StrId ''ABS'') = Inr 1.04" "get_density (StrId ''PLA'') = Inr 1.25"
    "get_density (StrId ''PETG'') = Inr 1.27" "get_density (StrId ''PETG-CF'') = Inr 1.25"
    by code_simp+
  from m have "(key, name, density) = (1, ''ABS'', 1.04) \<or> (key, name, density) = (2, ''PLA'', 1.25)
      \<or> (key, name, density) = (3, ''PETG'', 1.27) \<or> (key, name, density) = (4, ''PETG-CF'', 1.25)"
    by (simp add: materials_dict_def)
  then show "get_density (StrId name) = Inr density"
    using e by (elim disjE) simp_all
qed

text \<open>Claim C9, witness: the code 2 and the names \<open>pla\<close> and \<open>PLA\<close>.\<close>

theorem get_density_names_and_codes_witness:
  "lower ''pla'' = lower ''PLA''
   \<and> (2, ''PLA'', 1.25) \<in> set materials_dict
   \<and> get_density (IntId 2) = Inr 1.25
   \<and> get_density (StrId ''pla'') = Inr 1.25
   \<and> get_density (StrId ''PLA'') = Inr 1.25"
proof -
  have h: "lower ''pla'' = lower ''PLA''" by code_simp
  have m: "(2, ''PLA'', 1.25) \<in> set materials_dict" by (simp add: materials_dict_def)
  from get_density_names_and_codes[of "''pla''" "''PLA''" 2 "''PLA''" "1.25"] h m
  show ?thesis by simp
qed

subsection \<open>C10: a boolean identifier\<close>

text \<open>
  Claim C10: \<open>get_density(True)\<close> succeeds and returns 1.04, the density of the material
  with the code 1, since a boolean passes the integer branch of the lookup.
\<close>

theorem get_density_True: "get_density (BoolId True) = Inr 1.04"
  by (simp add: get_density_def int_key_def materials_dict_def)

end
